theory Spec2Isabelle
  imports Complex_Main "HOL-Library.Word"
begin

section \<open>Python values and exceptions\<close>

text \<open>
  The module \<open>visualize/core.py\<close> is dynamically typed: \<open>FPS.update\<close> returns a float,
  the integer \<open>0\<close> or a pair, and \<open>ColorFind.update\<close> returns lists, tuples or arrays.
  The values that reach a caller are therefore collected in one datatype. Clock readings
  (\<open>time.time()\<close>) and the durations computed from them are modelled as exact real
  numbers; an image (a numpy array handled only by OpenCV) is a value of a type parameter.
\<close>

datatype py_error =
    ZeroDivisionError
  | ValueError
  | IndexError
  | AttributeError
  | CvError

datatype 'img pyval =
    PyNone
  | PyInt int
  | PyFloat real
  | PyStr string
  | PyList "'img pyval list"
  | PyTuple "'img pyval list"
  | PyArr 'img

text \<open>True division \<open>a / b\<close> of Python: a zero divisor raises.\<close>

definition py_truediv :: "real \<Rightarrow> real \<Rightarrow> py_error + real" where
  "py_truediv a b = (if b = 0 then Inl ZeroDivisionError else Inr (a / b))"

text \<open>\<open>int(x)\<close> of a float truncates towards zero.\<close>

definition py_int :: "real \<Rightarrow> int" where
  "py_int x = (if 0 \<le> x then \<lfloor>x\<rfloor> else \<lceil>x\<rceil>)"

text \<open>\<open>str(n)\<close> of an integer: its decimal digits, with a minus sign when negative.\<close>

definition digit_char :: "nat \<Rightarrow> char" where
  "digit_char d = ''0123456789'' ! (d mod 10)"

fun str_nat :: "nat \<Rightarrow> string" where
  "str_nat n = (if n < 10 then [digit_char n] else str_nat (n div 10) @ [digit_char (n mod 10)])"

declare str_nat.simps [simp del]

definition str_int :: "int \<Rightarrow> string" where
  "str_int i = (if i < 0 then CHR ''-'' # str_nat (nat (- i)) else str_nat (nat i))"


section \<open>FPS\<close>

text \<open>
  \<open>FPS\<close> has the single field \<open>pTime\<close>, set at construction to the clock reading.
  \<open>cv2.putText\<close> is an external collaborator: it is a parameter of the model, drawing a
  text into an image or raising. The keyword arguments of \<open>update\<close> and their defaults are
  a record.
\<close>

record FPS =
  pTime :: real

record draw_args =
  pos :: "int \<times> int"
  color :: "int \<times> int \<times> int"
  scale :: int
  thickness :: int

definition default_draw_args :: draw_args where
  "default_draw_args = \<lparr>pos = (20, 50), color = (255, 0, 0), scale = 3, thickness = 3\<rparr>"

type_synonym 'img putText =
  "'img \<Rightarrow> string \<Rightarrow> int \<times> int \<Rightarrow> int \<Rightarrow> int \<Rightarrow> int \<times> int \<times> int \<Rightarrow> int \<Rightarrow> py_error + 'img"

definition FONT_HERSHEY_PLAIN :: int where
  "FONT_HERSHEY_PLAIN = 1"

definition FPS_init :: "real \<Rightarrow> FPS" where
  "FPS_init now = \<lparr>pTime = now\<rparr>"

text \<open>
  The body of the \<open>try\<close> block of \<open>FPS.update\<close> (lines 44 to 51), with \<open>cTime\<close> the clock
  reading of line 42. It returns the value or the exception raised, and the object as the
  block left it: an exception raised by the division leaves \<open>pTime\<close> unassigned, one raised
  by \<open>putText\<close> comes after the assignment.
\<close>

definition FPS_update_try ::
  "'img putText \<Rightarrow> FPS \<Rightarrow> real \<Rightarrow> 'img option \<Rightarrow> draw_args \<Rightarrow> (py_error + 'img pyval) \<times> FPS" where
  "FPS_update_try putText self cTime img a =
     (case py_truediv 1 (cTime - pTime self) of
        Inl e \<Rightarrow> (Inl e, self)
      | Inr fps \<Rightarrow>
          (let self' = self\<lparr>pTime := cTime\<rparr> in
           case img of
             None \<Rightarrow> (Inr (PyFloat fps), self')
           | Some im \<Rightarrow>
               (case putText im (''FPS: '' @ str_int (py_int fps)) (pos a) FONT_HERSHEY_PLAIN
                       (scale a) (color a) (thickness a) of
                  Inl e \<Rightarrow> (Inl e, self')
                | Inr im' \<Rightarrow> (Inr (PyTuple [PyFloat fps, PyArr im']), self'))))"

text \<open>\<open>FPS.update\<close>: the bare \<open>except\<close> turns every exception of the block into \<open>return 0\<close>.\<close>

definition FPS_update ::
  "'img putText \<Rightarrow> FPS \<Rightarrow> real \<Rightarrow> 'img option \<Rightarrow> draw_args \<Rightarrow> (py_error + 'img pyval) \<times> FPS" where
  "FPS_update putText self cTime img a =
     (case FPS_update_try putText self cTime img a of
        (Inl e, self') \<Rightarrow> (Inr (PyInt 0), self')
      | (Inr v, self') \<Rightarrow> (Inr v, self'))"


section \<open>Timer\<close>

record Timer =
  times :: "real list"
  gap :: real

definition Timer_start :: "Timer \<Rightarrow> real \<Rightarrow> Timer" where
  "Timer_start self now = self\<lparr>gap := now\<rparr>"

definition Timer_init :: "real \<Rightarrow> Timer" where
  "Timer_init now = Timer_start \<lparr>times = [], gap = 0\<rparr> now"

text \<open>\<open>stop\<close> appends \<open>time.time() - self.gap\<close> and returns \<open>self.times[-1]\<close>.\<close>

definition Timer_stop :: "Timer \<Rightarrow> real \<Rightarrow> real \<times> Timer" where
  "Timer_stop self now =
     (let self' = self\<lparr>times := times self @ [now - gap self]\<rparr>
      in (last (times self'), self'))"

text \<open>\<open>sum(self.times) / len(self.times)\<close>: the division raises on an empty list.\<close>

definition Timer_avg :: "Timer \<Rightarrow> py_error + real" where
  "Timer_avg self = py_truediv (sum_list (times self)) (real (length (times self)))"

definition Timer_total :: "Timer \<Rightarrow> py_error + real" where
  "Timer_total self = Inr (sum_list (times self))"

text \<open>\<open>numpy.cumsum\<close> of a one-dimensional array: the running sums, left to right.\<close>

fun np_cumsum :: "real \<Rightarrow> real list \<Rightarrow> real list" where
  "np_cumsum acc [] = []"
| "np_cumsum acc (x # xs) = (acc + x) # np_cumsum (acc + x) xs"

definition Timer_cumsum :: "Timer \<Rightarrow> real list" where
  "Timer_cumsum self = np_cumsum 0 (times self)"


section \<open>Runcodes\<close>














section \<open>ColorFind\<close>

text \<open>
  The functions of OpenCV that \<open>ColorFind\<close> calls are parameters of the model, each
  returning its result or raising: reading a trackbar of a window, the conversion from
  BGR to HSV, the range threshold and the masked bitwise and.
\<close>

record 'img cv2 =
  getTrackbarPos :: "string \<Rightarrow> string \<Rightarrow> py_error + int"
  cvtColor_BGR2HSV :: "'img \<Rightarrow> py_error + 'img"
  inRange :: "'img \<Rightarrow> int list \<Rightarrow> int list \<Rightarrow> py_error + 'img"
  bitwise_and :: "'img \<Rightarrow> 'img \<Rightarrow> 'img \<Rightarrow> py_error + 'img"

definition bind_err :: "'e + 'a \<Rightarrow> ('a \<Rightarrow> 'e + 'b) \<Rightarrow> 'e + 'b" where
  "bind_err m f = (case m of Inl e \<Rightarrow> Inl e | Inr v \<Rightarrow> f v)"

definition py_index :: "'a list \<Rightarrow> nat \<Rightarrow> py_error + 'a" where
  "py_index xs i = (if i < length xs then Inr (xs ! i) else Inl IndexError)"

record ColorFind =
  trackBar :: bool
  name :: string

text \<open>The argument \<open>myColor\<close> of \<open>update\<close>: \<open>None\<close>, the name of a colour, or HSV bounds.\<close>

datatype color_spec =
    NoColor
  | ColorName string
  | HsvVals "int list list"

definition getTrackbarValues :: "'img cv2 \<Rightarrow> ColorFind \<Rightarrow> py_error + int list list" where
  "getTrackbarValues cv self =
     bind_err (getTrackbarPos cv ''Hue Min'' (name self)) (\<lambda>hmin.
     bind_err (getTrackbarPos cv ''Sat Min'' (name self)) (\<lambda>smin.
     bind_err (getTrackbarPos cv ''Val Min'' (name self)) (\<lambda>vmin.
     bind_err (getTrackbarPos cv ''Hue Max'' (name self)) (\<lambda>hmax.
     bind_err (getTrackbarPos cv ''Sat Max'' (name self)) (\<lambda>smax.
     bind_err (getTrackbarPos cv ''Val Max'' (name self)) (\<lambda>vmax.
     Inr [[hmin, smin, vmin], [hmax, smax, vmax]]))))))"

definition MaskZone :: "'img cv2 \<Rightarrow> 'img \<Rightarrow> int list list \<Rightarrow> py_error + 'img \<times> 'img" where
  "MaskZone cv img hsv =
     bind_err (cvtColor_BGR2HSV cv img) (\<lambda>imgHSV.
     bind_err (py_index hsv 0) (\<lambda>lower.
     bind_err (py_index hsv 1) (\<lambda>upper.
     bind_err (inRange cv imgHSV lower upper) (\<lambda>mask.
     bind_err (bitwise_and cv img img mask) (\<lambda>imgResult.
     Inr (imgResult, mask))))))"

text \<open>
  \<open>getColorHSV\<close> returns the bounds of a known colour, or \<open>None\<close> after two warnings; the
  log is the list of the messages given to \<open>logging.warning\<close>.
\<close>

definition getColorHSV :: "string \<Rightarrow> string list \<Rightarrow> int list list option \<times> string list" where
  "getColorHSV myColor logged =
     (if myColor = ''red'' then (Some [[146, 141, 77], [179, 255, 255]], logged)
      else if myColor = ''green'' then (Some [[44, 79, 111], [79, 255, 255]], logged)
      else if myColor = ''blue'' then (Some [[103, 68, 130], [128, 255, 255]], logged)
      else (None, logged @ [''Color Not Defined'', ''Available colors: red, green, blue '']))"

text \<open>
  \<open>ColorFind.update\<close>. Line 194 reads \<open>imgColor = [],\<close>: with its trailing comma the
  initial value of \<open>imgColor\<close> is the one-element tuple \<open>([],)\<close>, while \<open>mask\<close> is \<open>[]\<close>.
\<close>

definition ColorFind_update ::
  "'img cv2 \<Rightarrow> ColorFind \<Rightarrow> 'img \<Rightarrow> color_spec \<Rightarrow> string list
     \<Rightarrow> (py_error + 'img pyval \<times> 'img pyval) \<times> string list" where
  "ColorFind_update cv self img myColor logged =
     (let imgColor = PyTuple [PyList []];
          mask = PyList []
      in case (if trackBar self
               then bind_err (getTrackbarValues cv self) (\<lambda>v. Inr (HsvVals v))
               else Inr myColor) of
           Inl e \<Rightarrow> (Inl e, logged)
         | Inr myColor1 \<Rightarrow>
             (let (myColor2, logged2) =
                    (case myColor1 of
                       ColorName s \<Rightarrow> getColorHSV s logged
                     | HsvVals v \<Rightarrow> (Some v, logged)
                     | NoColor \<Rightarrow> (None, logged))
              in case myColor2 of
                   None \<Rightarrow> (Inr (imgColor, mask), logged2)
                 | Some v \<Rightarrow>
                     (case MaskZone cv img v of
                        Inl e \<Rightarrow> (Inl e, logged2)
                      | Inr (imgResult, m) \<Rightarrow> (Inr (PyArr imgResult, PyArr m), logged2))))"


subsection \<open>Slices and \<open>protect_region\<close>\<close>

text \<open>
  A mask is a two-dimensional array of bytes, the list of its rows. A slice bound \<open>k\<close> of
  Python on a sequence of length \<open>n\<close> counts from the end when negative and is clipped to
  \<open>0 .. n\<close>. \<open>py_slice\<close> reads \<open>xs[start:stop]\<close>; \<open>update_slice\<close> is the assignment to the
  elements of that slice.
\<close>

type_synonym mask = "8 word list list"







section \<open>Properties of FPS\<close>

text \<open>
  Claim C2. When the elapsed interval \<open>cTime - pTime\<close> measured by \<open>FPS.update\<close> is zero,
  the division raises, the bare \<open>except\<close> catches it, and the call returns the integer
  \<open>0\<close> without raising, whether an image was passed or not.
\<close>

theorem FPS_update_zero_interval:
  assumes "cTime - pTime self = 0"
  shows "fst (FPS_update putText self cTime img a) = Inr (PyInt 0)"
  using assms by (simp add: FPS_update_def FPS_update_try_def py_truediv_def)

theorem FPS_update_zero_interval_witness:
  "(5::real) - pTime (FPS_init 5) = 0
   \<and> fst (FPS_update (\<lambda>im txt p f s c th. Inr (txt # im)) (FPS_init 5) 5 (Some [])
          default_draw_args) = Inr (PyInt 0)
   \<and> fst (FPS_update (\<lambda>im txt p f s c th. Inr (txt # im)) (FPS_init 5) 5 None
          default_draw_args) = Inr (PyInt 0)"
  using FPS_update_zero_interval [of 5 "FPS_init 5" "\<lambda>im txt p f s c th. Inr (txt # im)" "Some []" default_draw_args]
    FPS_update_zero_interval [of 5 "FPS_init 5" "\<lambda>im txt p f s c th. Inr (txt # im)" None default_draw_args]
  by (simp add: FPS_init_def)

text \<open>
  Claim C7. After every call of \<open>FPS.update\<close> the field \<open>pTime\<close> holds the clock reading
  of that call. When the division succeeds the field is assigned before anything else can
  raise; when the division fails the assignment is skipped, and the interval being zero the
  field already holds the reading.
\<close>

theorem FPS_update_sets_pTime:
  "pTime (snd (FPS_update putText self cTime img a)) = cTime"
  by (cases "cTime = pTime self")
    (auto simp: FPS_update_def FPS_update_try_def py_truediv_def Let_def
          split: option.splits sum.splits)


text \<open>
  Claim C8 states that every call with an image returns the pair of the rate and the
  image. It fails on a call whose interval is zero: the value returned is then the
  integer \<open>0\<close>, with an image as without.
\<close>

theorem FPS_update_pair_counterexample:
  "\<not> (\<exists>fps im'.
        fst (FPS_update (\<lambda>im txt p f s c th. Inr ((txt, p) # im)) (FPS_init 5) 5 (Some [])
              default_draw_args)
          = Inr (PyTuple [PyFloat fps, PyArr im']))"
  by (simp add: FPS_update_def FPS_update_try_def py_truediv_def FPS_init_def)

lemma str_int_example: "str_int (py_int 2) = ''2''"
  by (simp add: str_int_def py_int_def str_nat.simps digit_char_def)

text \<open>
  Claim C8, as amended. On a call whose interval is not zero, \<open>fps\<close> is
  \<open>1 / (cTime - pTime)\<close>; without an image the call returns \<open>fps\<close> alone, and with an
  image on which \<open>putText\<close> draws the text \<open>FPS: int(fps)\<close> at \<open>pos\<close> with the given
  scale, colour and thickness, it returns the pair of \<open>fps\<close> and the stamped image.
\<close>

theorem FPS_update_result:
  assumes "cTime - pTime self \<noteq> 0"
  shows "fst (FPS_update putText self cTime None a)
           = Inr (PyFloat (1 / (cTime - pTime self)))
   \<and> (putText im (''FPS: '' @ str_int (py_int (1 / (cTime - pTime self)))) (pos a)
           FONT_HERSHEY_PLAIN (scale a) (color a) (thickness a) = Inr im'
        \<longrightarrow> fst (FPS_update putText self cTime (Some im) a)
              = Inr (PyTuple [PyFloat (1 / (cTime - pTime self)), PyArr im']))"
  using assms by (simp add: FPS_update_def FPS_update_try_def py_truediv_def)

theorem FPS_update_result_witness:
  "(5 / 2 :: real) - pTime (FPS_init 2) \<noteq> 0
   \<and> fst (FPS_update (\<lambda>im txt p f s c th. Inr ((txt, p) # im)) (FPS_init 2) (5 / 2) None
          default_draw_args)
       = Inr (PyFloat 2)
   \<and> fst (FPS_update (\<lambda>im txt p f s c th. Inr ((txt, p) # im)) (FPS_init 2) (5 / 2) (Some [])
          default_draw_args)
       = Inr (PyTuple [PyFloat 2, PyArr [(''FPS: 2'', (20, 50))]])"
proof -
  have e: "1 / (5 / 2 - pTime (FPS_init 2)) = 2"
    by (simp add: FPS_init_def)
  have h: "(5 / 2 :: real) - pTime (FPS_init 2) \<noteq> 0"
    by (simp add: FPS_init_def)
  show ?thesis
    using h FPS_update_result [OF h, of "\<lambda>im txt p f s c th. Inr ((txt, p) # im)"
        default_draw_args "[]" "[(''FPS: 2'', (20, 50))]"]
    unfolding e by (simp add: default_draw_args_def str_int_example)
qed


section \<open>Properties of Timer\<close>

lemma np_cumsum_length: "length (np_cumsum acc xs) = length xs"
  by (induction xs arbitrary: acc) auto

lemma np_cumsum_nth:
  "i < length xs \<Longrightarrow> np_cumsum acc xs ! i = acc + sum_list (take (Suc i) xs)"
proof (induction xs arbitrary: acc i)
  case Nil
  then show ?case by simp
next
  case (Cons x xs)
  then show ?case by (cases i) (auto simp: add.assoc)
qed

lemma np_cumsum_last: "xs \<noteq> [] \<Longrightarrow> last (np_cumsum acc xs) = acc + sum_list xs"
proof (induction xs arbitrary: acc)
  case Nil
  then show ?case by simp
next
  case (Cons x xs)
  show ?case
  proof (cases xs)
    case Nil
    then show ?thesis by simp
  next
    case (Cons y ys)
    then have "last (np_cumsum (acc + x) xs) = (acc + x) + sum_list xs"
      using Cons.IH by blast
    with Cons show ?thesis by (simp add: add.assoc)
  qed
qed

text \<open>
  Claim C3, as amended. On a \<open>Timer\<close> with no sample, \<open>avg()\<close> raises
  \<open>ZeroDivisionError\<close>, while \<open>total()\<close> divides nothing and returns \<open>0\<close>.
\<close>

theorem Timer_empty_avg_total:
  assumes "times self = []"
  shows "Timer_avg self = Inl ZeroDivisionError \<and> Timer_total self = Inr 0"
  using assms by (simp add: Timer_avg_def Timer_total_def py_truediv_def)

theorem Timer_empty_avg_total_witness:
  "times (Timer_init 3) = []
   \<and> Timer_avg (Timer_init 3) = Inl ZeroDivisionError
   \<and> Timer_total (Timer_init 3) = Inr 0"
  using Timer_empty_avg_total [of "Timer_init 3"]
  by (simp add: Timer_init_def Timer_start_def)

text \<open>
  The claim as the specification states it, that both \<open>avg()\<close> and \<open>total()\<close> fail on
  an empty \<open>Timer\<close>, is false on a freshly constructed one.
\<close>

theorem Timer_empty_total_counterexample:
  "\<not> (Timer_avg (Timer_init 3) = Inl ZeroDivisionError
      \<and> Timer_total (Timer_init 3) = Inl ZeroDivisionError)"
  by (simp add: Timer_total_def)

text \<open>
  Claim C4. For a \<open>Timer\<close> with \<open>n \<ge> 1\<close> samples, \<open>cumsum()\<close> has length \<open>n\<close>, its
  element \<open>i\<close> is the sum of the samples \<open>0 .. i\<close>, its last element is \<open>total()\<close>, and
  \<open>avg()\<close> is \<open>total() / n\<close>. Durations are exact real numbers here, so the sums do
  not depend on the order of the additions.
\<close>

theorem Timer_cumsum_total_avg:
  assumes "times self \<noteq> []"
  shows "length (Timer_cumsum self) = length (times self)
       \<and> (\<forall>i < length (times self).
             Timer_cumsum self ! i = sum_list (take (Suc i) (times self)))
       \<and> (\<exists>tot. Timer_total self = Inr tot
             \<and> last (Timer_cumsum self) = tot
             \<and> Timer_avg self = Inr (tot / real (length (times self))))"
  using assms
  by (simp add: Timer_cumsum_def Timer_total_def Timer_avg_def py_truediv_def
        np_cumsum_length np_cumsum_nth np_cumsum_last)

theorem Timer_cumsum_total_avg_witness:
  "times \<lparr>times = [1, 2, 4], gap = 0\<rparr> \<noteq> []
   \<and> Timer_cumsum \<lparr>times = [1, 2, 4], gap = 0\<rparr> = [1, 3, 7]
   \<and> Timer_total \<lparr>times = [1, 2, 4], gap = 0\<rparr> = Inr 7
   \<and> Timer_avg \<lparr>times = [1, 2, 4], gap = 0\<rparr> = Inr (7 / 3)"
  using Timer_cumsum_total_avg [of "\<lparr>times = [1, 2, 4], gap = 0\<rparr>"]
  by (simp add: Timer_cumsum_def Timer_total_def)

text \<open>
  Claim C10. \<open>Timer.stop()\<close> appends its sample and returns it, and leaves \<open>gap\<close> as it
  was. Two calls of \<open>stop()\<close> with no \<open>start()\<close> between them, at the clock readings
  \<open>t1\<close> and then \<open>t2\<close> of a clock that does not run backwards, both measure from the same
  \<open>gap\<close>, and the second sample is at least the first. Only \<open>start()\<close> gives \<open>gap\<close> a
  new value, and it leaves the samples alone.
\<close>

theorem Timer_stop_twice:
  assumes "t1 \<le> t2"
    and "Timer_stop self t1 = (s1, self1)"
    and "Timer_stop self1 t2 = (s2, self2)"
  shows "gap self1 = gap self \<and> gap self2 = gap self
       \<and> times self1 = times self @ [s1] \<and> times self2 = times self @ [s1, s2]
       \<and> s1 = t1 - gap self \<and> s2 = t2 - gap self \<and> s1 \<le> s2
       \<and> gap (Timer_start self2 t3) = t3 \<and> times (Timer_start self2 t3) = times self2"
  using assms by (auto simp: Timer_stop_def Timer_start_def Let_def)

theorem Timer_stop_twice_witness:
  "(12::real) \<le> 15
   \<and> Timer_stop (Timer_init 10) 12 = (2, \<lparr>times = [2], gap = 10\<rparr>)
   \<and> Timer_stop \<lparr>times = [2], gap = 10\<rparr> 15 = (5, \<lparr>times = [2, 5], gap = 10\<rparr>)
   \<and> gap \<lparr>times = [2, 5], gap = 10\<rparr> = gap (Timer_init 10)
   \<and> (2::real) \<le> 5"
  using Timer_stop_twice [of 12 15 "Timer_init 10" 2 "\<lparr>times = [2], gap = 10\<rparr>" 5
      "\<lparr>times = [2, 5], gap = 10\<rparr>"]
  by (simp add: Timer_stop_def Timer_init_def Timer_start_def)


section \<open>Properties of Runcodes\<close>

























section \<open>Properties of ColorFind\<close>

text \<open>
  Claim C1. With the trackbars disabled and \<open>myColor\<close> absent, \<open>ColorFind.update\<close> runs
  no detection and returns its two initial values, whatever the image. The claim expects
  the pair \<open>([], [])\<close>; because of the trailing comma of line 194 the first component is
  the tuple \<open>([],)\<close>, so the value returned is \<open>(([],), [])\<close>.
\<close>

theorem ColorFind_update_no_color:
  "ColorFind_update cv \<lparr>trackBar = False, name = n\<rparr> img NoColor logged
     = (Inr (PyTuple [PyList []], PyList []), logged)
   \<and> ColorFind_update cv \<lparr>trackBar = False, name = n\<rparr> img NoColor logged
     \<noteq> (Inr (PyList [], PyList []), logged)"
  by (simp add: ColorFind_update_def)

text \<open>
  Claim C6. \<open>getColorHSV\<close> maps \<open>red\<close>, \<open>green\<close> and \<open>blue\<close> to fixed pairs of HSV
  triples without logging; for every other name it logs two warnings, the second listing
  the valid names, and returns \<open>None\<close>.
\<close>

theorem getColorHSV_presets:
  "getColorHSV ''red'' lg = (Some [[146, 141, 77], [179, 255, 255]], lg)
   \<and> getColorHSV ''green'' lg = (Some [[44, 79, 111], [79, 255, 255]], lg)
   \<and> getColorHSV ''blue'' lg = (Some [[103, 68, 130], [128, 255, 255]], lg)
   \<and> (myColor \<notin> {''red'', ''green'', ''blue''} \<longrightarrow>
        getColorHSV myColor lg
          = (None, lg @ [''Color Not Defined'', ''Available colors: red, green, blue '']))"
  by (simp add: getColorHSV_def)

theorem getColorHSV_presets_witness:
  "''purple'' \<notin> {''red'', ''green'', ''blue''}
   \<and> getColorHSV ''purple'' []
       = (None, [''Color Not Defined'', ''Available colors: red, green, blue ''])
   \<and> getColorHSV ''red'' [] = (Some [[146, 141, 77], [179, 255, 255]], [])"
  using getColorHSV_presets [of "[]" "''purple''"] by simp










end
